theory Spec2Isabelle
  imports Main
begin

section \<open>JavaScript values\<close>

text \<open>
  The values the server handles at run time: what the Airtop backend returns, what a
  client sends as tool arguments, and what the handlers build from them. Numbers are the
  integers a double holds exactly (magnitude below \<open>2 ^ 53\<close>), which print in full.
  An object is the list of its own enumerable properties in enumeration order, each key
  once, and its prototype is \<^verbatim>\<open>Object.prototype\<close>; no property is a function. \<open>JSelf\<close>
  stands inside an object for a reference back to the nearest enclosing object: after
  \<^verbatim>\<open>o.self = o\<close> the value of \<^verbatim>\<open>o\<close> is \<open>JObj [(''self'', JSelf)]\<close>. Limits of
  resources (depth of the stack, memory) are left out.
\<close>

datatype jsval =
    JUndefined
  | JNull
  | JBool bool
  | JNum int
  | JStr string
  | JArr "jsval list"
  | JObj "(string \<times> jsval) list"
  | JSelf

text \<open>
  A thrown value. \<open>TypeError\<close> is the error the language itself raises, with the first
  line of the engine's message; \<open>Thrown\<close> is any other thrown value, kept as the text
  \<^verbatim>\<open>String(err)\<close> gives for it.
\<close>

datatype exn = TypeError string | Thrown string

fun exn_text :: "exn \<Rightarrow> string" where
  "exn_text (TypeError m) = ''TypeError: '' @ m"
| "exn_text (Thrown s) = s"

text \<open>Truthiness, as \<^verbatim>\<open>if (v)\<close> and \<^verbatim>\<open>!v\<close> test it.\<close>

fun truthy :: "jsval \<Rightarrow> bool" where
  "truthy JUndefined = False"
| "truthy JNull = False"
| "truthy (JBool b) = b"
| "truthy (JNum n) = (n \<noteq> 0)"
| "truthy (JStr s) = (s \<noteq> [])"
| "truthy (JArr xs) = True"
| "truthy (JObj ps) = True"
| "truthy JSelf = True"

fun nullish :: "jsval \<Rightarrow> bool" where
  "nullish JUndefined = True"
| "nullish JNull = True"
| "nullish v = False"

text \<open>
  A value read out of the object \<open>obj\<close>: where it holds a reference back to \<open>obj\<close>,
  directly or as an element of an array, the reference is \<open>obj\<close> itself. References
  inside a nested object are to that object and stay.
\<close>

fun unfold_self :: "jsval \<Rightarrow> jsval \<Rightarrow> jsval" where
  "unfold_self obj JSelf = obj"
| "unfold_self obj (JArr xs) = JArr (map (unfold_self obj) xs)"
| "unfold_self obj v = v"

text \<open>
  Property read with optional chaining, \<^verbatim>\<open>v?.k\<close>: \<^verbatim>\<open>undefined\<close> on
  \<^verbatim>\<open>null\<close> and \<^verbatim>\<open>undefined\<close>. Arrays and strings have a \<^verbatim>\<open>length\<close>.
\<close>

fun js_prop :: "string \<Rightarrow> jsval \<Rightarrow> jsval" where
  "js_prop k (JObj ps) =
     (case map_of ps k of Some v \<Rightarrow> unfold_self (JObj ps) v | None \<Rightarrow> JUndefined)"
| "js_prop k (JArr xs) = (if k = ''length'' then JNum (int (length xs)) else JUndefined)"
| "js_prop k (JStr s) = (if k = ''length'' then JNum (int (length s)) else JUndefined)"
| "js_prop k v = JUndefined"

text \<open>Plain property read, \<^verbatim>\<open>v.k\<close>: a TypeError on \<^verbatim>\<open>null\<close> and \<^verbatim>\<open>undefined\<close>.\<close>

definition js_get :: "string \<Rightarrow> jsval \<Rightarrow> exn + jsval" where
  "js_get k v =
     (if nullish v
      then Inl (TypeError (''Cannot read properties of '' @
                           (if v = JNull then ''null'' else ''undefined'') @
                           '' (reading '' @ [CHR 0x27] @ k @ [CHR 0x27] @ '')''))
      else Inr (js_prop k v))"

subsection \<open>Conversion to text\<close>

definition newline :: char where
  "newline = CHR 0x0A"

definition dquote :: char where
  "dquote = CHR 0x22"

definition backslash :: char where
  "backslash = CHR 0x5C"

fun join_strs :: "string \<Rightarrow> string list \<Rightarrow> string" where
  "join_strs sep [] = []"
| "join_strs sep [s] = s"
| "join_strs sep (s # t # ts) = s @ sep @ join_strs sep (t # ts)"

definition digit_char :: "nat \<Rightarrow> char" where
  "digit_char d = ''0123456789abcdef'' ! d"

fun show_nat :: "nat \<Rightarrow> string" where
  "show_nat n = (if n < 10 then [digit_char n] else show_nat (n div 10) @ [digit_char (n mod 10)])"

declare show_nat.simps [simp del]

definition show_int :: "int \<Rightarrow> string" where
  "show_int i = (if i < 0 then CHR ''-'' # show_nat (nat (- i)) else show_nat (nat i))"

text \<open>
  \<^verbatim>\<open>String(v)\<close>, the conversion \<^verbatim>\<open>join\<close>, template strings and property keys
  use as well. An array is its elements joined by commas, \<^verbatim>\<open>null\<close> and
  \<^verbatim>\<open>undefined\<close> elements giving the empty text. An object is converted by its
  \<^verbatim>\<open>toString\<close>: the inherited one gives \<^verbatim>\<open>[object Object]\<close>; an own property of
  that name is not a function, the inherited \<^verbatim>\<open>valueOf\<close> gives the object back, and
  the conversion raises a TypeError.
\<close>

fun to_string :: "jsval \<Rightarrow> exn + string"
  and to_strings :: "jsval list \<Rightarrow> exn + string list" where
  "to_string JUndefined = Inr ''undefined''"
| "to_string JNull = Inr ''null''"
| "to_string (JBool b) = Inr (if b then ''true'' else ''false'')"
| "to_string (JNum n) = Inr (show_int n)"
| "to_string (JStr s) = Inr s"
| "to_string (JArr xs) =
     (case to_strings xs of
        Inl x \<Rightarrow> Inl x
      | Inr ts \<Rightarrow> Inr (join_strs '','' ts))"
| "to_string (JObj ps) =
     (if map_of ps ''toString'' = None then Inr ''[object Object]''
      else Inl (TypeError ''Cannot convert object to primitive value''))"
| "to_string JSelf = Inr ''[object Object]''"
| "to_strings [] = Inr []"
| "to_strings (v # vs) =
     (case (if nullish v then Inr [] else to_string v) of
        Inl x \<Rightarrow> Inl x
      | Inr t \<Rightarrow>
          (case to_strings vs of
             Inl x \<Rightarrow> Inl x
           | Inr ts \<Rightarrow> Inr (t # ts)))"

text \<open>\<^verbatim>\<open>xs.join(sep)\<close> on an array of values.\<close>

definition js_join :: "string \<Rightarrow> jsval list \<Rightarrow> exn + string" where
  "js_join sep xs =
     (case to_strings xs of
        Inl x \<Rightarrow> Inl x
      | Inr ts \<Rightarrow> Inr (join_strs sep ts))"

subsection \<open>JSON.stringify\<close>

definition json_escape :: "char \<Rightarrow> string" where
  "json_escape c =
     (if c = dquote then [backslash, dquote]
      else if c = backslash then [backslash, backslash]
      else if c = CHR 0x08 then [backslash, CHR ''b'']
      else if c = CHR 0x0C then [backslash, CHR ''f'']
      else if c = CHR 0x0A then [backslash, CHR ''n'']
      else if c = CHR 0x0D then [backslash, CHR ''r'']
      else if c = CHR 0x09 then [backslash, CHR ''t'']
      else if (of_char c :: nat) < 32
        then [backslash, CHR ''u'', CHR ''0'', CHR ''0'',
              digit_char (of_char c div 16), digit_char (of_char c mod 16)]
      else [c])"

definition json_quote :: "string \<Rightarrow> string" where
  "json_quote s = dquote # concat (map json_escape s) @ [dquote]"

text \<open>
  The serialization of a value: \<open>None\<close> is \<^verbatim>\<open>undefined\<close> (nothing to serialize). Inside
  an array \<^verbatim>\<open>undefined\<close> becomes \<^verbatim>\<open>null\<close>; inside an object the property is left
  out. A property named \<^verbatim>\<open>toJSON\<close> is not a function and is serialized like any
  other. Reaching an object again while it is being serialized raises a TypeError.
\<close>

fun json_value :: "jsval \<Rightarrow> exn + string option"
  and json_elems :: "jsval list \<Rightarrow> exn + string list"
  and json_members :: "(string \<times> jsval) list \<Rightarrow> exn + string list" where
  "json_value JUndefined = Inr None"
| "json_value JNull = Inr (Some ''null'')"
| "json_value (JBool b) = Inr (Some (if b then ''true'' else ''false''))"
| "json_value (JNum n) = Inr (Some (show_int n))"
| "json_value (JStr s) = Inr (Some (json_quote s))"
| "json_value (JArr xs) =
     (case json_elems xs of
        Inl x \<Rightarrow> Inl x
      | Inr ts \<Rightarrow> Inr (Some (''['' @ join_strs '','' ts @ '']'')))"
| "json_value (JObj ps) =
     (case json_members ps of
        Inl x \<Rightarrow> Inl x
      | Inr ts \<Rightarrow> Inr (Some (''{'' @ join_strs '','' ts @ ''}'')))"
| "json_value JSelf = Inl (TypeError ''Converting circular structure to JSON'')"
| "json_elems [] = Inr []"
| "json_elems (v # vs) =
     (case json_value v of
        Inl x \<Rightarrow> Inl x
      | Inr t \<Rightarrow>
          (case json_elems vs of
             Inl x \<Rightarrow> Inl x
           | Inr ts \<Rightarrow> Inr ((case t of None \<Rightarrow> ''null'' | Some s \<Rightarrow> s) # ts)))"
| "json_members [] = Inr []"
| "json_members ((k, v) # ps) =
     (case json_value v of
        Inl x \<Rightarrow> Inl x
      | Inr t \<Rightarrow>
          (case json_members ps of
             Inl x \<Rightarrow> Inl x
           | Inr ts \<Rightarrow>
               Inr ((case t of None \<Rightarrow> [] | Some s \<Rightarrow> [json_quote k @ '':'' @ s]) @ ts)))"

definition JSON_stringify :: "jsval \<Rightarrow> exn + string option" where
  "JSON_stringify v = json_value v"

section \<open>The result envelope and the error normalizer\<close>

text \<open>
  A tool result is \<^verbatim>\<open>{content: [{type, text}], isError?}\<close>. A result built without
  \<^verbatim>\<open>isError\<close> has \<open>isError = False\<close>. The text of a block is \<open>None\<close> when the
  handler stored \<^verbatim>\<open>undefined\<close> there (\<^verbatim>\<open>JSON.stringify(undefined)\<close>).
\<close>

record content_block =
  block_type :: string
  block_text :: "string option"

record ToolResult =
  content :: "content_block list"
  isError :: bool

definition text_result :: "string option \<Rightarrow> bool \<Rightarrow> ToolResult" where
  "text_result t err = \<lparr>content = [\<lparr>block_type = ''text'', block_text = t\<rparr>], isError = err\<rparr>"

fun is_string :: "jsval \<Rightarrow> bool" where
  "is_string (JStr s) = True"
| "is_string v = False"

fun map_exn :: "('a \<Rightarrow> exn + 'b) \<Rightarrow> 'a list \<Rightarrow> exn + 'b list" where
  "map_exn f [] = Inr []"
| "map_exn f (x # xs) =
     (case f x of
        Inl e \<Rightarrow> Inl e
      | Inr y \<Rightarrow> (case map_exn f xs of Inl e \<Rightarrow> Inl e | Inr ys \<Rightarrow> Inr (y # ys)))"

text \<open>
  The callback \<^verbatim>\<open>reportAirtopErrors\<close> maps over the errors: the value it returns for
  one element, or the exception \<^verbatim>\<open>JSON.stringify\<close> raises.
\<close>

definition format_entry :: "jsval \<Rightarrow> exn + jsval" where
  "format_entry e =
     (if \<not> truthy e then Inr (JStr ''Unknown error (empty)'')
      else if is_string e then Inr e
      else if \<not> nullish (js_prop ''message'' e) then Inr (js_prop ''message'' e)
      else (case JSON_stringify e of
              Inl x \<Rightarrow> Inl x
            | Inr None \<Rightarrow> Inr JUndefined
            | Inr (Some t) \<Rightarrow> Inr (JStr t)))"

text \<open>
  \<^verbatim>\<open>reportAirtopErrors(errors)\<close>. The logging at its head is wrapped in a
  \<^verbatim>\<open>try\<close> that ignores every failure and has no part in the result. The callback
  runs over all the elements first; \<^verbatim>\<open>join\<close> then converts what it returned. Neither
  they nor \<^verbatim>\<open>String(errors)\<close> are inside a \<^verbatim>\<open>try\<close>.
\<close>

definition formatted :: "jsval \<Rightarrow> exn + string" where
  "formatted errors =
     (case errors of
        JArr es \<Rightarrow>
          (if length es > 0
           then (case map_exn format_entry es of
                   Inl x \<Rightarrow> Inl x
                 | Inr vs \<Rightarrow> js_join [newline] vs)
           else to_string errors)
      | _ \<Rightarrow> to_string errors)"

definition reportAirtopErrors :: "jsval \<Rightarrow> exn + ToolResult" where
  "reportAirtopErrors errors =
     (case formatted errors of
        Inl x \<Rightarrow> Inl x
      | Inr f \<Rightarrow> Inr (text_result (Some (''Errors from the API:'' @ [newline] @ f)) True))"

section \<open>The session registry\<close>

text \<open>
  \<^verbatim>\<open>const sessionRegistry = new Map<string, SessionMetadata>()\<close>. The spec's
  \<open>track\<close>, \<open>release\<close> and \<open>lookup\<close> are the map's \<^verbatim>\<open>set\<close>, \<^verbatim>\<open>delete\<close> and
  \<^verbatim>\<open>get\<close>. Keys and profile names are typed as strings in the source and held here as
  the run-time values they are; keys that are primitives compare by value.
\<close>

record SessionMetadata =
  sessionId :: jsval
  profileName :: jsval
  createdAt :: nat

type_synonym session_registry = "jsval \<rightharpoonup> SessionMetadata"

definition registry_set :: "jsval \<Rightarrow> SessionMetadata \<Rightarrow> session_registry \<Rightarrow> session_registry" where
  "registry_set k m reg = reg(k \<mapsto> m)"

definition registry_delete :: "jsval \<Rightarrow> session_registry \<Rightarrow> session_registry" where
  "registry_delete k reg = reg(k := None)"

definition registry_get :: "jsval \<Rightarrow> session_registry \<Rightarrow> SessionMetadata option" where
  "registry_get k reg = reg k"

section \<open>The backend and the server state\<close>

text \<open>
  A call to the Airtop client is a method name with its arguments. The backend is outside
  the program: it is a parameter that answers a call, given the calls made before it,
  by returning a response or by raising. The state of the server is the session registry,
  the log of backend calls made so far, and the clock \<^verbatim>\<open>new Date()\<close> reads.
\<close>

type_synonym backend_call = "string \<times> jsval list"

datatype outcome = Raises exn | Returns jsval

type_synonym backend = "backend_call list \<Rightarrow> backend_call \<Rightarrow> outcome"

record server_state =
  sessionRegistry :: session_registry
  calls :: "backend_call list"
  clock :: nat

type_synonym handler = "backend \<Rightarrow> jsval \<Rightarrow> server_state \<Rightarrow> (exn + ToolResult) \<times> server_state"

definition call_backend ::
  "backend \<Rightarrow> string \<Rightarrow> jsval list \<Rightarrow> server_state \<Rightarrow> outcome \<times> server_state" where
  "call_backend be m args st = (be (calls st) (m, args), st\<lparr>calls := calls st @ [(m, args)]\<rparr>)"

text \<open>
  \<^verbatim>\<open>const result = await airtopClient.m(...args)\<close> followed by the rest of the handler:
  a raise of the backend leaves the handler at once.
\<close>

definition backend_then ::
  "backend \<Rightarrow> string \<Rightarrow> jsval list \<Rightarrow> (jsval \<Rightarrow> exn + ToolResult) \<Rightarrow> server_state
     \<Rightarrow> (exn + ToolResult) \<times> server_state" where
  "backend_then be m args k st =
     (case call_backend be m args st of
        (Raises x, st') \<Rightarrow> (Inl x, st')
      | (Returns v, st') \<Rightarrow> (k v, st'))"

section \<open>The tool handlers\<close>

text \<open>\<^verbatim>\<open>{content: [{type: "text", text: JSON.stringify(v)}]}\<close>\<close>

definition json_result :: "jsval \<Rightarrow> exn + ToolResult" where
  "json_result v =
     (case JSON_stringify v of Inl x \<Rightarrow> Inl x | Inr t \<Rightarrow> Inr (text_result t False))"

text \<open>
  The three ways the handlers look at a response.
  \<^item> \<^verbatim>\<open>if (result.errors) return reportAirtopErrors(result.errors)\<close>, then
    \<^verbatim>\<open>result.data\<close>;
  \<^item> \<^verbatim>\<open>if (window.errors?.length) ...\<close>, then \<^verbatim>\<open>window.data\<close>;
  \<^item> \<^verbatim>\<open>if (result?.errors) ...\<close>, then \<^verbatim>\<open>result.data\<close>.
\<close>

definition respond_errors :: "jsval \<Rightarrow> exn + ToolResult" where
  "respond_errors result =
     (case js_get ''errors'' result of
        Inl x \<Rightarrow> Inl x
      | Inr errors \<Rightarrow>
          if truthy errors then reportAirtopErrors errors
          else json_result (js_prop ''data'' result))"

definition respond_errors_length :: "jsval \<Rightarrow> exn + ToolResult" where
  "respond_errors_length window =
     (case js_get ''errors'' window of
        Inl x \<Rightarrow> Inl x
      | Inr errors \<Rightarrow>
          if truthy (js_prop ''length'' errors) then reportAirtopErrors errors
          else json_result (js_prop ''data'' window))"

definition respond_errors_optional :: "jsval \<Rightarrow> exn + ToolResult" where
  "respond_errors_optional result =
     (if truthy (js_prop ''errors'' result) then reportAirtopErrors (js_prop ''errors'' result)
      else (case js_get ''data'' result of
              Inl x \<Rightarrow> Inl x
            | Inr d \<Rightarrow> json_result d))"

text \<open>
  \<^verbatim>\<open>try { ... } catch (err) { return {content: [{type: "text", text: prefix + String(err)}],
  isError: true} }\<close>
\<close>

definition catching :: "string \<Rightarrow> (exn + ToolResult) \<times> server_state \<Rightarrow> (exn + ToolResult) \<times> server_state" where
  "catching prefix p =
     (case p of
        (Inl x, st) \<Rightarrow> (Inr (text_result (Some (prefix @ exn_text x)) True), st)
      | (Inr r, st) \<Rightarrow> (Inr r, st))"

definition createSession :: handler where
  "createSession be args st = backend_then be ''sessions.create'' [] respond_errors st"

definition createSessionWithOptions :: handler where
  "createSessionWithOptions be args st =
     (let configuration = js_prop ''configuration'' args;
          sessionRequest = (if truthy configuration then JObj [(''configuration'', configuration)]
                            else JObj [])
      in case call_backend be ''sessions.create'' [sessionRequest] st of
           (Raises x, st1) \<Rightarrow> (Inl x, st1)
         | (Returns session, st1) \<Rightarrow>
             (case js_get ''errors'' session of
                Inl x \<Rightarrow> (Inl x, st1)
              | Inr errors \<Rightarrow>
                  if truthy errors then (reportAirtopErrors errors, st1)
                  else
                    let data = js_prop ''data'' session;
                        id = js_prop ''id'' data;
                        name = js_prop ''profileName'' configuration
                    in if truthy id \<and> truthy name
                       then
                         let st2 = st1\<lparr>sessionRegistry :=
                                     registry_set id
                                       \<lparr>sessionId = id, profileName = name, createdAt = clock st1\<rparr>
                                       (sessionRegistry st1)\<rparr>;
                             st3 = snd (call_backend be ''sessions.saveProfileOnTermination''
                                          [id, name] st2)
                         in (json_result data, st3)
                       else (json_result data, st1)))"

definition createWindow :: handler where
  "createWindow be args st =
     backend_then be ''windows.create''
       [js_prop ''sessionId'' args, JObj [(''url'', js_prop ''url'' args)]]
       respond_errors_length st"

definition pageQuery :: handler where
  "pageQuery be args st =
     catching ''Internal error during pageQuery: ''
       (backend_then be ''windows.pageQuery''
          [js_prop ''sessionId'' args, js_prop ''windowId'' args,
           JObj [(''prompt'', js_prop ''prompt'' args)]]
          respond_errors_optional st)"

definition terminateSession :: handler where
  "terminateSession be args st =
     (let sessionId = js_prop ''sessionId'' args;
          st1 = st\<lparr>sessionRegistry := registry_delete sessionId (sessionRegistry st)\<rparr>
      in backend_then be ''sessions.terminate'' [sessionId]
           (\<lambda>_. Inr (text_result (Some ''Session terminated successfully'') False)) st1)"

definition getWindowInfo :: handler where
  "getWindowInfo be args st =
     backend_then be ''windows.getWindowInfo''
       [js_prop ''sessionId'' args, js_prop ''windowId'' args]
       respond_errors_length st"

definition paginatedExtraction :: handler where
  "paginatedExtraction be args st =
     backend_then be ''windows.paginatedExtraction''
       [js_prop ''sessionId'' args, js_prop ''windowId'' args,
        JObj [(''prompt'', js_prop ''prompt'' args),
              (''configuration'', JObj [(''outputSchema'', js_prop ''outputSchema'' args)])]]
       json_result st"

definition click :: handler where
  "click be args st =
     (let elementDescription = js_prop ''elementDescription'' args;
          coordinate = js_prop ''coordinate'' args;
          clickRequest =
            (if truthy coordinate
             then JObj [(''coordinate'', coordinate), (''elementDescription'', elementDescription)]
             else JObj [(''elementDescription'', elementDescription)])
      in catching ''Internal error during click: ''
           (backend_then be ''windows.click''
              [js_prop ''sessionId'' args, js_prop ''windowId'' args, clickRequest]
              respond_errors_optional st))"

definition scroll :: handler where
  "scroll be args st =
     (let elementDescription = js_prop ''elementDescription'' args;
          scrollRequest =
            (if truthy elementDescription then JObj [(''scrollToElement'', elementDescription)]
             else JObj [])
      in backend_then be ''windows.scroll''
           [js_prop ''sessionId'' args, js_prop ''windowId'' args, scrollRequest]
           respond_errors st)"

definition type_text :: handler where
  "type_text be args st =
     (let elementDescription = js_prop ''elementDescription'' args;
          typeRequest =
            JObj ((''text'', js_prop ''text'' args) #
                  (if truthy elementDescription then [(''elementDescription'', elementDescription)]
                   else []))
      in backend_then be ''windows.type''
           [js_prop ''sessionId'' args, js_prop ''windowId'' args, typeRequest]
           respond_errors st)"

definition scrape :: handler where
  "scrape be args st =
     catching ''Internal error during scrape: ''
       (backend_then be ''windows.scrapeContent''
          [js_prop ''sessionId'' args, js_prop ''windowId'' args]
          respond_errors_optional st)"

definition fileInput :: handler where
  "fileInput be args st =
     catching ''File upload failed: ''
       (backend_then be ''windows.uploadFileAndSelectInput''
          [js_prop ''sessionId'' args, js_prop ''windowId'' args,
           JObj [(''elementDescription'', js_prop ''elementDescription'' args),
                 (''uploadFilePath'', js_prop ''filePath'' args)]]
          (\<lambda>result.
             case js_get ''fileId'' result of
               Inl x \<Rightarrow> Inl x
             | Inr fileId \<Rightarrow>
                 json_result (JObj [(''fileId'', fileId), (''success'', JBool True),
                                    (''message'', JStr ''File uploaded successfully'')]))
          st)"

definition monitorForCondition :: handler where
  "monitorForCondition be args st =
     (let timeoutSeconds =
            (if js_prop ''timeoutSeconds'' args = JUndefined then JNum 30
             else js_prop ''timeoutSeconds'' args)
      in backend_then be ''windows.monitor''
           [js_prop ''sessionId'' args, js_prop ''windowId'' args,
            JObj [(''condition'', js_prop ''condition'' args),
                  (''timeThresholdSeconds'', timeoutSeconds)]]
           respond_errors st)"

section \<open>Input schemas and the tool catalogue\<close>

text \<open>
  The schemas the source declares with zod: \<^verbatim>\<open>z.string()\<close>, \<^verbatim>\<open>z.number()\<close>,
  \<^verbatim>\<open>z.boolean()\<close>, \<^verbatim>\<open>z.object({...})\<close>, \<^verbatim>\<open>z.array(s)\<close>, \<^verbatim>\<open>z.union([...])\<close>,
  \<^verbatim>\<open>s.optional()\<close> and \<^verbatim>\<open>s.default(v)\<close>. Descriptions play no part in validation.
\<close>

datatype zschema =
    ZString
  | ZNumber
  | ZBoolean
  | ZObject "(string \<times> zschema) list"
  | ZArray zschema
  | ZUnion "zschema list"
  | ZOptional zschema
  | ZDefault zschema jsval

fun first_some :: "'a option list \<Rightarrow> 'a option" where
  "first_some [] = None"
| "first_some (None # xs) = first_some xs"
| "first_some (Some x # xs) = Some x"

fun all_some :: "'a option list \<Rightarrow> 'a list option" where
  "all_some [] = Some []"
| "all_some (None # xs) = None"
| "all_some (Some x # xs) = (case all_some xs of None \<Rightarrow> None | Some ys \<Rightarrow> Some (x # ys))"

text \<open>
  Modelled from the spec: the validation of a raw input against a declared schema, which
  the source leaves to the zod library (not under src/). \<open>None\<close> is a validation
  failure; otherwise the parsed input: an object keeps the declared keys that have a
  value, and a default fills in a missing one.
\<close>

fun zparse :: "zschema \<Rightarrow> jsval \<Rightarrow> jsval option" where
  "zparse ZString v = (if is_string v then Some v else None)"
| "zparse ZNumber v = (case v of JNum n \<Rightarrow> Some v | _ \<Rightarrow> None)"
| "zparse ZBoolean v = (case v of JBool b \<Rightarrow> Some v | _ \<Rightarrow> None)"
| "zparse (ZObject shape) v =
     (case v of
        JObj ps \<Rightarrow>
          (case all_some (map (\<lambda>(k, s). map_option (Pair k) (zparse s (js_prop k v))) shape) of
             None \<Rightarrow> None
           | Some kvs \<Rightarrow> Some (JObj (filter (\<lambda>(k, x). x \<noteq> JUndefined) kvs)))
      | _ \<Rightarrow> None)"
| "zparse (ZArray s) v =
     (case v of
        JArr xs \<Rightarrow> map_option JArr (all_some (map (zparse s) xs))
      | _ \<Rightarrow> None)"
| "zparse (ZUnion ss) v = first_some (map (\<lambda>s. zparse s v) ss)"
| "zparse (ZOptional s) v = (if v = JUndefined then Some JUndefined else zparse s v)"
| "zparse (ZDefault s d) v = (if v = JUndefined then Some d else zparse s v)"

text \<open>A registered tool, as \<^verbatim>\<open>server.tool(name, description, schema?, handler)\<close> declares it.\<close>

record Tool =
  tool_name :: string
  description :: string
  inputSchema :: "zschema option"
  tool_handler :: handler

definition session_window :: "(string \<times> zschema) list" where
  "session_window = [(''sessionId'', ZString), (''windowId'', ZString)]"

definition tools :: "Tool list" where
  "tools =
    [\<lparr>tool_name = ''createSession'',
      description = ''Create a new Airtop browser session'',
      inputSchema = None,
      tool_handler = createSession\<rparr>,
     \<lparr>tool_name = ''createSessionWithOptions'',
      description = ''Create a new Airtop browser session with custom configuration options'',
      inputSchema = Some (ZObject
        [(''configuration'', ZOptional (ZObject
           [(''profileName'', ZOptional ZString),
            (''proxy'', ZOptional (ZUnion [ZBoolean, ZObject []])),
            (''solveCaptcha'', ZOptional ZBoolean),
            (''timeoutMinutes'', ZOptional ZNumber),
            (''extensionIds'', ZOptional (ZArray ZString)),
            (''baseProfileId'', ZOptional ZString)]))]),
      tool_handler = createSessionWithOptions\<rparr>,
     \<lparr>tool_name = ''createWindow'',
      description = ''Create a new browser window in the session'',
      inputSchema = Some (ZObject [(''sessionId'', ZString), (''url'', ZString)]),
      tool_handler = createWindow\<rparr>,
     \<lparr>tool_name = ''pageQuery'',
      description = ''Query the current page content using AI'',
      inputSchema = Some (ZObject (session_window @ [(''prompt'', ZString)])),
      tool_handler = pageQuery\<rparr>,
     \<lparr>tool_name = ''terminateSession'',
      description = ''Terminate an Airtop browser session'',
      inputSchema = Some (ZObject [(''sessionId'', ZString)]),
      tool_handler = terminateSession\<rparr>,
     \<lparr>tool_name = ''getWindowInfo'',
      description = ''Get information about a browser window, including a live view URL,'' @
        [newline] @ ''     which lets the user use and interact with the window. '' @
        ''Use this to get a URL to share with the user,'' @
        [newline] @ ''     so they can log into a web site.'',
      inputSchema = Some (ZObject session_window),
      tool_handler = getWindowInfo\<rparr>,
     \<lparr>tool_name = ''paginatedExtraction'',
      description = ''Extract data from a paginated list'',
      inputSchema = Some (ZObject (session_window @
        [(''prompt'', ZString), (''outputSchema'', ZOptional ZString)])),
      tool_handler = paginatedExtraction\<rparr>,
     \<lparr>tool_name = ''click'',
      description = ''Click on an element in the browser window using AI description'',
      inputSchema = Some (ZObject (session_window @
        [(''elementDescription'', ZString),
         (''coordinate'', ZOptional (ZObject [(''x'', ZNumber), (''y'', ZNumber)]))])),
      tool_handler = click\<rparr>,
     \<lparr>tool_name = ''scroll'',
      description = ''Scroll in the browser window'',
      inputSchema = Some (ZObject (session_window @ [(''elementDescription'', ZOptional ZString)])),
      tool_handler = scroll\<rparr>,
     \<lparr>tool_name = ''type'',
      description = ''Type text into an element in the browser window'',
      inputSchema = Some (ZObject (session_window @
        [(''text'', ZString), (''elementDescription'', ZOptional ZString)])),
      tool_handler = type_text\<rparr>,
     \<lparr>tool_name = ''scrape'',
      description = ''Scrape/extract content from the browser window'',
      inputSchema = Some (ZObject session_window),
      tool_handler = scrape\<rparr>,
     \<lparr>tool_name = ''fileInput'',
      description = ''Upload a file to a file input element in the browser window'',
      inputSchema = Some (ZObject (session_window @
        [(''elementDescription'', ZString), (''filePath'', ZString)])),
      tool_handler = fileInput\<rparr>,
     \<lparr>tool_name = ''monitorForCondition'',
      description = ''Monitor the browser window for specific conditions or changes'',
      inputSchema = Some (ZObject (session_window @
        [(''condition'', ZString),
         (''timeoutSeconds'', ZDefault (ZOptional ZNumber) (JNum 30))])),
      tool_handler = monitorForCondition\<rparr>]"

section \<open>The tool registry\<close>

datatype invoke_error = UnknownTool string

text \<open>
  Modelled from the spec: the input a tool's handler receives. The source registers its
  tools with \<^verbatim>\<open>McpServer.tool\<close> of the MCP SDK, whose dispatch is not under src/;
  section 4.1 of the spec says that a declared schema validates the raw input. \<open>None\<close>
  is a validation failure. A tool without a schema has a handler that takes no input.
\<close>

definition parsed_input :: "Tool \<Rightarrow> jsval \<Rightarrow> jsval option" where
  "parsed_input t rawInput =
     (case inputSchema t of None \<Rightarrow> Some JUndefined | Some s \<Rightarrow> zparse s rawInput)"

text \<open>
  Modelled from the spec: the boundary around a handler, which the SDK's dispatch (not
  under src/) provides. Section 4.1: an exception raised by the handler is caught and
  converted into an error result; here it carries the exception's text.
\<close>

definition run_handler :: "handler \<Rightarrow> backend \<Rightarrow> jsval \<Rightarrow> server_state \<Rightarrow> ToolResult \<times> server_state" where
  "run_handler h be input st =
     (case h be input st of
        (Inl x, st') \<Rightarrow> (text_result (Some (exn_text x)) True, st')
      | (Inr r, st') \<Rightarrow> (r, st'))"

text \<open>
  Modelled from the spec: the registry's \<open>invoke\<close>, the SDK's dispatch of a tool call
  (not under src/), as section 4.1 describes it. An unregistered name fails with
  \<open>UnknownTool\<close>; an input that violates the declared schema gives an error result with
  a validation message and the handler is not called; otherwise the handler runs on the
  validated input inside the boundary.
\<close>

definition invoke ::
  "Tool list \<Rightarrow> backend \<Rightarrow> string \<Rightarrow> jsval \<Rightarrow> server_state
     \<Rightarrow> (invoke_error + ToolResult) \<times> server_state" where
  "invoke registry be name rawInput st =
     (case find (\<lambda>t. tool_name t = name) registry of
        None \<Rightarrow> (Inl (UnknownTool name), st)
      | Some t \<Rightarrow>
          (case parsed_input t rawInput of
             None \<Rightarrow>
               (Inr (text_result (Some (''Invalid arguments for tool '' @ name)) True), st)
           | Some input \<Rightarrow>
               (case run_handler (tool_handler t) be input st of
                  (r, st') \<Rightarrow> (Inr r, st'))))"

section \<open>The HTTP gateway\<close>

text \<open>
  \<^verbatim>\<open>const transports: {[sessionId: string]: SSEServerTransport} = {}\<close> is a plain
  object: its own properties are the live connections, and a read of a key it does not
  own falls through to \<^verbatim>\<open>Object.prototype\<close>, whose members are functions and
  objects, hence truthy.
\<close>

datatype transport = SSEServerTransport (transport_sessionId: string)

type_synonym transports = "string \<rightharpoonup> transport"

definition object_prototype_keys :: "string list" where
  "object_prototype_keys =
     [''constructor'', ''__defineGetter__'', ''__defineSetter__'', ''hasOwnProperty'',
      ''__lookupGetter__'', ''__lookupSetter__'', ''isPrototypeOf'', ''propertyIsEnumerable'',
      ''toString'', ''valueOf'', ''__proto__'', ''toLocaleString'']"

datatype 'a property = Own 'a | Inherited | Absent

definition obj_read :: "(string \<rightharpoonup> 'a) \<Rightarrow> string \<Rightarrow> 'a property" where
  "obj_read obj k =
     (case obj k of
        Some v \<Rightarrow> Own v
      | None \<Rightarrow> if k \<in> set object_prototype_keys then Inherited else Absent)"

text \<open>
  \<^verbatim>\<open>GET /sse\<close>: the new transport carries the identifier the SDK generated for it (a
  random UUID, never a key of \<^verbatim>\<open>Object.prototype\<close>) and is stored under it. The
  close notification of the response deletes that property.
\<close>

definition get_sse :: "string \<Rightarrow> transports \<Rightarrow> transports" where
  "get_sse sid ts = ts(sid \<mapsto> SSEServerTransport sid)"

definition on_close :: "string \<Rightarrow> transports \<Rightarrow> transports" where
  "on_close sid ts = ts(sid := None)"

text \<open>
  \<^verbatim>\<open>POST /messages\<close>. The query parameter is whatever the query string decodes to
  (\<^verbatim>\<open>undefined\<close> when absent) and is turned into a property key. The request is
  answered with a status and a body, or handed to the transport found, or the route's
  promise rejects and no response is written.
\<close>

datatype http_result = Status nat string | HandlePostMessage transport | Rejected exn

definition post_messages :: "jsval \<Rightarrow> transports \<Rightarrow> http_result" where
  "post_messages query_sessionId ts =
     (case to_string query_sessionId of
        Inl x \<Rightarrow> Rejected x
      | Inr key \<Rightarrow>
          (case obj_read ts key of
             Own t \<Rightarrow> HandlePostMessage t
           | Inherited \<Rightarrow> Rejected (TypeError ''transport.handlePostMessage is not a function'')
           | Absent \<Rightarrow> Status 400 ''No transport found for sessionId''))"

text \<open>A run of the gateway: streams opening and closing, in the order the events arrive.\<close>

datatype conn_event = Open string | Close string

fun apply_event :: "conn_event \<Rightarrow> transports \<Rightarrow> transports" where
  "apply_event (Open c) ts = get_sse c ts"
| "apply_event (Close c) ts = on_close c ts"

fun run_events :: "conn_event list \<Rightarrow> transports \<Rightarrow> transports" where
  "run_events [] ts = ts"
| "run_events (e # es) ts = run_events es (apply_event e ts)"

text \<open>
  The runs that can happen, given the identifiers opened (\<open>os\<close>) and closed (\<open>cs\<close>)
  before: an opening stream gets an identifier never used before, and a close
  notification comes once, for a stream that was opened.
\<close>

fun possible_run :: "string list \<Rightarrow> string list \<Rightarrow> conn_event list \<Rightarrow> bool" where
  "possible_run os cs [] = True"
| "possible_run os cs (Open c # es) =
     (c \<notin> set object_prototype_keys \<and> c \<notin> set os \<and> possible_run (c # os) cs es)"
| "possible_run os cs (Close c # es) =
     (c \<in> set os \<and> c \<notin> set cs \<and> possible_run os (c # cs) es)"

fun opened :: "conn_event list \<Rightarrow> string list" where
  "opened [] = []"
| "opened (Open c # es) = c # opened es"
| "opened (Close c # es) = opened es"

fun closed :: "conn_event list \<Rightarrow> string list" where
  "closed [] = []"
| "closed (Open c # es) = closed es"
| "closed (Close c # es) = c # closed es"

section \<open>Start-up\<close>

definition PORT :: nat where
  "PORT = 3456"

text \<open>
  \<^verbatim>\<open>main()\<close> over the arguments of the process and its environment (after the
  \<^verbatim>\<open>.env\<close> file is loaded): it calls \<^verbatim>\<open>process.exit\<close>, or its promise rejects,
  or the server is up, listening on a port or on the standard streams.
\<close>

datatype main_result = Exit nat | Rejects exn | Listens nat | Stdio

definition main :: "string list \<Rightarrow> (string \<rightharpoonup> string) \<Rightarrow> main_result" where
  "main argv env =
     (if ''--help'' \<in> set argv \<or> ''-h'' \<in> set argv then Exit 0
      else if ''--version'' \<in> set argv \<or> ''-v'' \<in> set argv then Exit 0
      else if env ''AIRTOP_API_KEY'' = None \<or> env ''AIRTOP_API_KEY'' = Some []
        then Rejects (Thrown ''Error: AIRTOP_API_KEY environment variable is required'')
      else if ''--listen'' \<in> set argv then Listens PORT
      else Stdio)"

text \<open>
  The module ends with \<^verbatim>\<open>main().catch(console.error)\<close>: a rejection is printed and
  nothing else; no exit code is set and nothing is left to run, so the process ends with
  code 0. When the server listens, \<open>port_free\<close> says whether the port can be bound: if
  not, the server's \<^verbatim>\<open>error\<close> event has no listener and ends the process with
  code 1.
\<close>

datatype process_status = Exited nat | Running

definition run_process :: "string list \<Rightarrow> (string \<rightharpoonup> string) \<Rightarrow> bool \<Rightarrow> process_status" where
  "run_process argv env port_free =
     (case main argv env of
        Exit code \<Rightarrow> Exited code
      | Rejects x \<Rightarrow> Exited 0
      | Listens p \<Rightarrow> if port_free then Running else Exited 1
      | Stdio \<Rightarrow> Running)"

text \<open>
  The launcher script starts the server as a child process: it exits with code 1 when
  the child cannot be started, and with the child's code when the child exits
  (\<^verbatim>\<open>code ?? 0\<close>: 0 when the child was ended by a signal and has no code).
\<close>

datatype child_event = SpawnError | ChildExit "nat option"

fun launcher :: "child_event \<Rightarrow> nat" where
  "launcher SpawnError = 1"
| "launcher (ChildExit None) = 0"
| "launcher (ChildExit (Some code)) = code"

section \<open>The normalizer as the spec words it\<close>

text \<open>
  The spec's description of the normalizer, element by element: a falsy element gives a
  fixed text, a string is used verbatim, an element exposing a message (its
  \<^verbatim>\<open>message\<close> holds a value, neither \<^verbatim>\<open>undefined\<close> nor \<^verbatim>\<open>null\<close>) gives that
  message as text, and any other element gives its JSON serialization.
\<close>

definition exposes_message :: "jsval \<Rightarrow> bool" where
  "exposes_message e = (\<not> nullish (js_prop ''message'' e))"

definition text_of :: "jsval \<Rightarrow> string option" where
  "text_of v = (case to_string v of Inr s \<Rightarrow> Some s | Inl x \<Rightarrow> None)"

definition json_text :: "jsval \<Rightarrow> string option" where
  "json_text e = (case JSON_stringify e of Inr (Some t) \<Rightarrow> Some t | _ \<Rightarrow> None)"

fun str_of :: "jsval \<Rightarrow> string" where
  "str_of (JStr s) = s"
| "str_of v = []"

definition spec_entry_text :: "jsval \<Rightarrow> string" where
  "spec_entry_text e =
     (if \<not> truthy e then ''Unknown error (empty)''
      else if is_string e then str_of e
      else if exposes_message e
        then (case text_of (js_prop ''message'' e) of Some t \<Rightarrow> t | None \<Rightarrow> [])
      else (case json_text e of Some t \<Rightarrow> t | None \<Rightarrow> []))"

definition spec_normalize :: "jsval list \<Rightarrow> ToolResult" where
  "spec_normalize es =
     \<lparr>content = [\<lparr>block_type = ''text'',
                   block_text = Some (''Errors from the API:'' @ [newline] @
                                      join_strs [newline] (map spec_entry_text es))\<rparr>],
      isError = True\<rparr>"

text \<open>
  An element the normalizer can render: it is falsy, or a string, or its message
  converts to text, or (having no message) it has a JSON serialization.
\<close>

definition renderable :: "jsval \<Rightarrow> bool" where
  "renderable e =
     (if \<not> truthy e \<or> is_string e then True
      else if exposes_message e then text_of (js_prop ''message'' e) \<noteq> None
      else json_text e \<noteq> None)"

text \<open>
  An input the normalizer can render: a non-empty array of renderable elements, or an
  empty array or a value that is no array and converts to text.
\<close>

definition renderable_input :: "jsval \<Rightarrow> bool" where
  "renderable_input errors =
     (case errors of
        JArr es \<Rightarrow> (\<forall>e \<in> set es. renderable e)
      | _ \<Rightarrow> text_of errors \<noteq> None)"

text \<open>
  Plain data, as a decoded JSON text normally is: no reference back to an enclosing
  object, and no object with an own property named \<^verbatim>\<open>toString\<close>.
\<close>

fun plain_data :: "jsval \<Rightarrow> bool" where
  "plain_data JSelf = False"
| "plain_data (JArr xs) = (\<forall>v \<in> set xs. plain_data v)"
| "plain_data (JObj ps) = (map_of ps ''toString'' = None \<and> (\<forall>p \<in> set ps. plain_data (snd p)))"
| "plain_data v = True"

section \<open>Sample inputs\<close>

definition idle_state :: server_state where
  "idle_state = \<lparr>sessionRegistry = Map.empty, calls = [], clock = 0\<rparr>"

definition sample_metadata :: SessionMetadata where
  "sample_metadata = \<lparr>sessionId = JStr ''s1'', profileName = JStr ''work'', createdAt = 0\<rparr>"

definition tracking_state :: server_state where
  "tracking_state =
     \<lparr>sessionRegistry = [JStr ''s1'' \<mapsto> sample_metadata], calls = [], clock = 0\<rparr>"

definition failing_backend :: backend where
  "failing_backend = (\<lambda>log call. Raises (Thrown ''Error: connect ECONNREFUSED''))"

definition sample_errors :: "jsval list" where
  "sample_errors = [JNull, JStr ''plain string'', JObj [(''message'', JStr ''x'')], JObj []]"

definition unrenderable_errors :: "jsval list" where
  "unrenderable_errors = [JStr ''first'', JObj [(''self'', JSelf), (''code'', JNum 7)]]"

definition sample_run :: "conn_event list" where
  "sample_run = [Open ''c1'', Open ''c2'', Close ''c1'', Open ''c3'']"

section \<open>Properties of the error normalizer\<close>

lemma to_string_raises_TypeError:
  "to_string v = Inl x \<Longrightarrow> \<exists>m. x = TypeError m"
  "to_strings vs = Inl x \<Longrightarrow> \<exists>m. x = TypeError m"
  by (induction v and vs arbitrary: x and x rule: to_string_to_strings.induct)
     (auto split: sum.splits if_splits)

lemma json_raises_TypeError:
  "json_value v = Inl x \<Longrightarrow> \<exists>m. x = TypeError m"
  "json_elems vs = Inl x \<Longrightarrow> \<exists>m. x = TypeError m"
  "json_members ps = Inl x \<Longrightarrow> \<exists>m. x = TypeError m"
  by (induction v and vs and ps arbitrary: x and x and x
      rule: json_value_json_elems_json_members.induct)
     (auto split: sum.splits)

lemma json_value_None: "json_value v = Inr None \<Longrightarrow> v = JUndefined"
  by (cases v) (auto split: sum.splits)

lemma format_entry_raises_TypeError: "format_entry e = Inl x \<Longrightarrow> \<exists>m. x = TypeError m"
  by (auto simp: format_entry_def JSON_stringify_def split: if_splits sum.splits option.splits
      dest: json_raises_TypeError(1))

lemma map_exn_Inl: "map_exn f xs = Inl x \<Longrightarrow> \<exists>a \<in> set xs. f a = Inl x"
  by (induction xs) (auto split: sum.splits)

lemma map_exn_Inr: "map_exn f xs = Inr ys \<Longrightarrow> a \<in> set xs \<Longrightarrow> \<exists>y \<in> set ys. f a = Inr y"
  by (induction xs arbitrary: ys) (auto split: sum.splits)

lemma to_strings_Inr:
  "to_strings vs = Inr ts \<Longrightarrow> v \<in> set vs \<Longrightarrow> \<not> nullish v \<Longrightarrow> \<exists>t. to_string v = Inr t"
  by (induction vs arbitrary: ts) (auto split: sum.splits if_splits)

text \<open>
  What the callback and the conversion of \<^verbatim>\<open>join\<close> do with one renderable element: the
  callback returns a value, and the value converts to the text the spec gives.
\<close>

lemma format_entry_text:
  assumes "renderable e"
  shows "\<exists>v. format_entry e = Inr v \<and> \<not> nullish v \<and> to_string v = Inr (spec_entry_text e)"
proof (cases "\<not> truthy e \<or> is_string e")
  case True
  then show ?thesis
  proof
    assume "\<not> truthy e"
    then show ?thesis by (simp add: format_entry_def spec_entry_text_def)
  next
    assume s: "is_string e"
    then obtain t where "e = JStr t" by (cases e) auto
    then show ?thesis by (simp add: format_entry_def spec_entry_text_def)
  qed
next
  case f: False
  show ?thesis
  proof (cases "exposes_message e")
    case True
    with f assms obtain t where "text_of (js_prop ''message'' e) = Some t"
      by (auto simp: renderable_def)
    then have "to_string (js_prop ''message'' e) = Inr t"
      by (auto simp: text_of_def split: sum.splits)
    with f True \<open>text_of (js_prop ''message'' e) = Some t\<close> show ?thesis
      by (simp add: format_entry_def spec_entry_text_def exposes_message_def)
  next
    case False
    with f assms obtain t where t: "json_text e = Some t"
      by (auto simp: renderable_def)
    then have "JSON_stringify e = Inr (Some t)"
      by (auto simp: json_text_def split: sum.splits option.splits)
    with f False t show ?thesis
      by (simp add: format_entry_def spec_entry_text_def exposes_message_def)
  qed
qed

lemma format_entry_unrenderable:
  assumes "\<not> renderable e" and "format_entry e = Inr v"
  shows "\<not> nullish v \<and> (\<exists>x. to_string v = Inl x)"
proof -
  from assms(1) have t: "truthy e" "\<not> is_string e"
    by (auto simp: renderable_def split: if_splits)
  show ?thesis
  proof (cases "exposes_message e")
    case True
    with assms(1) t have "text_of (js_prop ''message'' e) = None"
      by (simp add: renderable_def)
    then have "\<exists>x. to_string (js_prop ''message'' e) = Inl x"
      by (auto simp: text_of_def split: sum.splits)
    moreover from True t assms(2) have "v = js_prop ''message'' e"
      by (simp add: format_entry_def exposes_message_def)
    ultimately show ?thesis using True by (simp add: exposes_message_def)
  next
    case False
    with assms(1) t have n: "json_text e = None"
      by (simp add: renderable_def)
    from False t assms(2) obtain r where r: "JSON_stringify e = Inr r"
      by (auto simp: format_entry_def exposes_message_def split: sum.splits)
    from t(1) have "e \<noteq> JUndefined" by auto
    have "r \<noteq> None"
    proof
      assume "r = None"
      with r have "json_value e = Inr None" by (simp add: JSON_stringify_def)
      from json_value_None [OF this] \<open>e \<noteq> JUndefined\<close> show False by simp
    qed
    with r n show ?thesis
      by (auto simp: json_text_def)
  qed
qed

lemma map_format_entry:
  assumes "\<forall>e \<in> set es. renderable e"
  shows "\<exists>vs. map_exn format_entry es = Inr vs
           \<and> to_strings vs = Inr (map spec_entry_text es)"
  using assms
proof (induction es)
  case Nil
  then show ?case by simp
next
  case (Cons e es)
  from Cons.prems have "renderable e" by simp
  from format_entry_text [OF this] obtain v where
    v: "format_entry e = Inr v" "\<not> nullish v" "to_string v = Inr (spec_entry_text e)" by blast
  from Cons obtain vs where
    vs: "map_exn format_entry es = Inr vs" "to_strings vs = Inr (map spec_entry_text es)"
    by auto
  from v vs show ?case by simp
qed

lemma formatted_array_renderable:
  assumes "\<forall>e \<in> set es. renderable e"
  shows "formatted (JArr es) = Inr (join_strs [newline] (map spec_entry_text es))"
proof (cases es)
  case Nil
  then show ?thesis by (simp add: formatted_def)
next
  case (Cons a as)
  from map_format_entry [OF assms] obtain vs where
    "map_exn format_entry es = Inr vs" "to_strings vs = Inr (map spec_entry_text es)" by blast
  with Cons show ?thesis by (simp add: formatted_def js_join_def)
qed

lemma formatted_array_unrenderable:
  assumes "\<not> (\<forall>e \<in> set es. renderable e)"
  shows "\<exists>m. formatted (JArr es) = Inl (TypeError m)"
proof -
  from assms obtain e where e: "e \<in> set es" "\<not> renderable e" by blast
  then have ne: "length es > 0" by (cases es) auto
  show ?thesis
  proof (cases "map_exn format_entry es")
    case (Inl x)
    then obtain a where "format_entry a = Inl x" by (auto dest: map_exn_Inl)
    then obtain m where "x = TypeError m" by (auto dest: format_entry_raises_TypeError)
    with Inl ne show ?thesis by (simp add: formatted_def)
  next
    case (Inr vs)
    with e(1) obtain v where v: "v \<in> set vs" "format_entry e = Inr v"
      by (auto dest: map_exn_Inr)
    with e(2) have bad: "\<not> nullish v" "\<exists>x. to_string v = Inl x"
      using format_entry_unrenderable by blast+
    have "\<exists>x. to_strings vs = Inl x"
    proof (cases "to_strings vs")
      case (Inr ts)
      from to_strings_Inr [OF this v(1) bad(1)] bad(2) show ?thesis by auto
    qed blast
    then obtain x where x: "to_strings vs = Inl x" by blast
    then obtain m where "x = TypeError m" by (auto dest: to_string_raises_TypeError(2))
    with x Inr ne show ?thesis by (simp add: formatted_def js_join_def)
  qed
qed

text \<open>
  C2, as amended. On a sequence of errors in which every element can be rendered, the
  normalizer returns the error result whose single text block is the banner, a newline,
  and the texts of the elements joined by newlines, where a falsy element gives
  \<open>Unknown error (empty)\<close>, a string gives itself, an element exposing a message gives
  the message as text, and any other element gives its JSON serialization. On any other
  sequence it raises a TypeError.
\<close>

theorem normalizer_maps_renderable_elements:
  "((\<forall>e \<in> set es. renderable e) \<longrightarrow> reportAirtopErrors (JArr es) = Inr (spec_normalize es))
   \<and> (\<not> (\<forall>e \<in> set es. renderable e) \<longrightarrow>
        (\<exists>m. reportAirtopErrors (JArr es) = Inl (TypeError m)))"
proof (intro conjI impI)
  assume "\<forall>e \<in> set es. renderable e"
  from formatted_array_renderable [OF this] show "reportAirtopErrors (JArr es) = Inr (spec_normalize es)"
    by (simp add: reportAirtopErrors_def spec_normalize_def text_result_def)
next
  assume "\<not> (\<forall>e \<in> set es. renderable e)"
  from formatted_array_unrenderable [OF this]
  show "\<exists>m. reportAirtopErrors (JArr es) = Inl (TypeError m)"
    by (auto simp: reportAirtopErrors_def)
qed

text \<open>
  The spec's sample elements in one sequence: \<^verbatim>\<open>null\<close>, a plain string, an object with
  a message, and the empty object, which falls back to its serialization \<^verbatim>\<open>{}\<close>. And
  a sequence whose second element refers to itself and has no message.
\<close>

theorem normalizer_maps_renderable_elements_witness:
  "reportAirtopErrors (JArr sample_errors) =
       Inr (text_result
              (Some (''Errors from the API:'' @ [newline] @ ''Unknown error (empty)'' @ [newline] @
                     ''plain string'' @ [newline] @ ''x'' @ [newline] @ ''{}''))
              True)
   \<and> reportAirtopErrors (JArr unrenderable_errors)
       = Inl (TypeError ''Converting circular structure to JSON'')"
proof -
  have r: "renderable JNull" "renderable (JStr ''plain string'')"
      "renderable (JObj [(''message'', JStr ''x'')])" "renderable (JObj [])"
    by (simp_all add: renderable_def exposes_message_def text_of_def json_text_def
        JSON_stringify_def)
  then have h: "\<forall>e \<in> set sample_errors. renderable e"
    by (simp add: sample_errors_def)
  have u: "\<not> renderable (JObj [(''self'', JSelf), (''code'', JNum 7)])"
    by (simp add: renderable_def exposes_message_def json_text_def JSON_stringify_def)
  then have g: "\<not> (\<forall>e \<in> set unrenderable_errors. renderable e)"
    by (simp add: unrenderable_errors_def)
  have s: "spec_normalize sample_errors =
       text_result
         (Some (''Errors from the API:'' @ [newline] @ ''Unknown error (empty)'' @ [newline] @
                ''plain string'' @ [newline] @ ''x'' @ [newline] @ ''{}''))
         True"
    by (simp add: spec_normalize_def text_result_def sample_errors_def spec_entry_text_def
        exposes_message_def text_of_def json_text_def JSON_stringify_def)
  from normalizer_maps_renderable_elements [of sample_errors] h s
  have a: "reportAirtopErrors (JArr sample_errors) =
       Inr (text_result
              (Some (''Errors from the API:'' @ [newline] @ ''Unknown error (empty)'' @ [newline] @
                     ''plain string'' @ [newline] @ ''x'' @ [newline] @ ''{}''))
              True)"
    by simp
  from normalizer_maps_renderable_elements [of unrenderable_errors] g
  obtain m where m: "reportAirtopErrors (JArr unrenderable_errors) = Inl (TypeError m)"
    by blast
  have "reportAirtopErrors (JArr unrenderable_errors)
       = Inl (TypeError ''Converting circular structure to JSON'')"
    by (simp add: reportAirtopErrors_def formatted_def format_entry_def JSON_stringify_def
        unrenderable_errors_def)
  with a m show ?thesis by simp
qed

text \<open>
  An element whose message is an object with an own \<^verbatim>\<open>toString\<close> that is no function
  (\<^verbatim>\<open>{message: {toString: 1}}\<close>): the callback returns the message, and \<^verbatim>\<open>join\<close>
  raises when it converts it to text. No result is returned.
\<close>

theorem normalizer_raises_on_message_object:
  "reportAirtopErrors (JArr [JObj [(''message'', JObj [(''toString'', JNum 1)])]])
     = Inl (TypeError ''Cannot convert object to primitive value'')"
  by (simp add: reportAirtopErrors_def formatted_def format_entry_def js_join_def)

lemma plain_data_unfold: "plain_data v \<Longrightarrow> unfold_self obj v = v"
  by (induction v) (auto simp: map_idI)

lemma plain_data_prop: "plain_data e \<Longrightarrow> plain_data (js_prop k e)"
proof (cases e)
  case (JObj ps)
  assume p: "plain_data e"
  show ?thesis
  proof (cases "map_of ps k")
    case None
    with JObj show ?thesis by simp
  next
    case (Some v)
    then have "(k, v) \<in> set ps" by (rule map_of_SomeD)
    with p JObj have "plain_data v" by auto
    with Some JObj show ?thesis by (simp add: plain_data_unfold)
  qed
qed simp_all

lemma plain_data_to_string:
  "plain_data v \<Longrightarrow> \<exists>s. to_string v = Inr s"
  "(\<forall>v \<in> set vs. plain_data v) \<Longrightarrow> \<exists>ss. to_strings vs = Inr ss"
  by (induction v and vs rule: to_string_to_strings.induct) auto

lemma plain_data_json:
  "plain_data v \<Longrightarrow> \<exists>t. json_value v = Inr t"
  "(\<forall>v \<in> set vs. plain_data v) \<Longrightarrow> \<exists>ts. json_elems vs = Inr ts"
  "(\<forall>p \<in> set ps. plain_data (snd p)) \<Longrightarrow> \<exists>ts. json_members ps = Inr ts"
  by (induction v and vs and ps rule: json_value_json_elems_json_members.induct) auto

lemma plain_data_renderable:
  assumes "plain_data e"
  shows "renderable e"
proof -
  from plain_data_to_string(1) [OF plain_data_prop [OF assms, of "''message''"]]
  have m: "text_of (js_prop ''message'' e) \<noteq> None"
    by (auto simp: text_of_def)
  from plain_data_json(1) [OF assms] obtain t where t: "json_value e = Inr t" by blast
  have "json_text e \<noteq> None" if "truthy e"
  proof -
    from that have "e \<noteq> JUndefined" by auto
    have "t \<noteq> None"
    proof
      assume "t = None"
      with t have "json_value e = Inr None" by simp
      from json_value_None [OF this] \<open>e \<noteq> JUndefined\<close> show False by simp
    qed
    with t show ?thesis by (auto simp: json_text_def JSON_stringify_def)
  qed
  with m show ?thesis by (auto simp: renderable_def)
qed

text \<open>
  C3, as amended. The normalizer returns a result, with \<open>isError\<close> set and one content
  block, exactly on the inputs it can render, and raises a TypeError on every other
  input. Every input that is plain data can be rendered: the empty sequence, nulls,
  strings, objects with or without a message, values that are no arrays.
\<close>

theorem normalizer_returns_iff_renderable:
  "(renderable_input errors \<longrightarrow>
      (\<exists>r. reportAirtopErrors errors = Inr r \<and> isError r \<and> length (content r) = 1))
   \<and> (\<not> renderable_input errors \<longrightarrow> (\<exists>m. reportAirtopErrors errors = Inl (TypeError m)))
   \<and> (plain_data errors \<longrightarrow> renderable_input errors)"
proof (intro conjI impI)
  assume r: "renderable_input errors"
  have "\<exists>f. formatted errors = Inr f"
  proof (cases errors)
    case (JArr es)
    with r have "\<forall>e \<in> set es. renderable e" by (simp add: renderable_input_def)
    from formatted_array_renderable [OF this] JArr show ?thesis by simp
  qed (use r in \<open>auto simp: renderable_input_def formatted_def text_of_def
                    split: sum.splits if_splits\<close>)
  then show "\<exists>r. reportAirtopErrors errors = Inr r \<and> isError r \<and> length (content r) = 1"
    by (auto simp: reportAirtopErrors_def text_result_def)
next
  assume n: "\<not> renderable_input errors"
  have "\<exists>m. formatted errors = Inl (TypeError m)"
  proof (cases errors)
    case (JArr es)
    with n have "\<not> (\<forall>e \<in> set es. renderable e)" by (simp add: renderable_input_def)
    from formatted_array_unrenderable [OF this] JArr show ?thesis by simp
  qed (use n in \<open>auto simp: renderable_input_def formatted_def text_of_def split: if_splits\<close>)
  then show "\<exists>m. reportAirtopErrors errors = Inl (TypeError m)"
    by (auto simp: reportAirtopErrors_def)
next
  assume p: "plain_data errors"
  show "renderable_input errors"
  proof (cases errors)
    case (JArr es)
    with p show ?thesis by (auto simp: renderable_input_def intro: plain_data_renderable)
  qed (use p plain_data_to_string(1) [of errors] in
        \<open>auto simp: renderable_input_def text_of_def\<close>)
qed

text \<open>
  The empty object among the errors is plain data and is serialized; an object with an
  own \<^verbatim>\<open>toString\<close> that is no function, given in place of the array, is not plain
  data and cannot be converted.
\<close>

theorem normalizer_returns_iff_renderable_witness:
  "plain_data (JArr [JObj []])
   \<and> reportAirtopErrors (JArr [JObj []])
       = Inr (text_result (Some (''Errors from the API:'' @ [newline] @ ''{}'')) True)
   \<and> reportAirtopErrors (JObj [(''toString'', JNum 1)])
       = Inl (TypeError ''Cannot convert object to primitive value'')"
proof -
  have p: "plain_data (JArr [JObj []])" by simp
  have n: "\<not> renderable_input (JObj [(''toString'', JNum 1)])"
    by (simp add: renderable_input_def text_of_def)
  from normalizer_returns_iff_renderable [of "JArr [JObj []]"] p
  obtain r where "reportAirtopErrors (JArr [JObj []]) = Inr r" by blast
  moreover have "reportAirtopErrors (JArr [JObj []])
       = Inr (text_result (Some (''Errors from the API:'' @ [newline] @ ''{}'')) True)"
    by (simp add: reportAirtopErrors_def formatted_def format_entry_def JSON_stringify_def
        js_join_def)
  moreover from normalizer_returns_iff_renderable [of "JObj [(''toString'', JNum 1)]"] n
  obtain m where "reportAirtopErrors (JObj [(''toString'', JNum 1)]) = Inl (TypeError m)"
    by blast
  moreover have "reportAirtopErrors (JObj [(''toString'', JNum 1)])
       = Inl (TypeError ''Cannot convert object to primitive value'')"
    by (simp add: reportAirtopErrors_def formatted_def)
  ultimately show ?thesis using p by simp
qed

text \<open>
  An object that refers to itself and has no message (\<^verbatim>\<open>o.self = o\<close>) reaches
  \<^verbatim>\<open>JSON.stringify\<close>, which raises; nothing in the normalizer catches it.
\<close>

theorem normalizer_raises_on_self_reference:
  "reportAirtopErrors (JArr [JObj [(''self'', JSelf)]])
     = Inl (TypeError ''Converting circular structure to JSON'')"
  by (simp add: reportAirtopErrors_def formatted_def format_entry_def JSON_stringify_def)

section \<open>Properties of the session registry\<close>

text \<open>
  C7. Releasing a session id the registry does not track leaves the registry as it was,
  and after tracking an id and releasing it, looking the id up finds nothing.
\<close>

theorem registry_release:
  "(registry_get sid reg = None \<longrightarrow> registry_delete sid reg = reg)
   \<and> registry_get sid (registry_delete sid (registry_set sid meta reg)) = None"
  by (auto simp: registry_get_def registry_delete_def registry_set_def)

theorem registry_release_witness:
  "registry_get (JStr ''s1'') Map.empty = None
   \<and> registry_delete (JStr ''s1'') Map.empty = Map.empty
   \<and> registry_get (JStr ''s1'')
       (registry_delete (JStr ''s1'') (registry_set (JStr ''s1'') sample_metadata Map.empty)) = None"
proof -
  have h: "registry_get (JStr ''s1'') (Map.empty :: session_registry) = None"
    by (simp add: registry_get_def)
  with registry_release [of "JStr ''s1''" Map.empty sample_metadata] show ?thesis by simp
qed

text \<open>
  C10. After the \<open>terminateSession\<close> handler has run for a session id, the registry has no
  entry for that id, whatever the backend did; when the backend's terminate call raises,
  the handler raises too and the entry stays removed.
\<close>

theorem terminateSession_releases:
  "registry_get (js_prop ''sessionId'' args)
     (sessionRegistry (snd (terminateSession be args st))) = None
   \<and> (\<forall>x. be (calls st) (''sessions.terminate'', [js_prop ''sessionId'' args]) = Raises x \<longrightarrow>
        fst (terminateSession be args st) = Inl x)"
  by (simp add: terminateSession_def backend_then_def call_backend_def Let_def
      registry_get_def registry_delete_def split: outcome.splits)

theorem terminateSession_releases_witness:
  "registry_get (JStr ''s1'') (sessionRegistry tracking_state) = Some sample_metadata
   \<and> failing_backend (calls tracking_state) (''sessions.terminate'', [JStr ''s1''])
       = Raises (Thrown ''Error: connect ECONNREFUSED'')
   \<and> registry_get (JStr ''s1'')
       (sessionRegistry (snd (terminateSession failing_backend
                                 (JObj [(''sessionId'', JStr ''s1'')]) tracking_state))) = None
   \<and> fst (terminateSession failing_backend (JObj [(''sessionId'', JStr ''s1'')]) tracking_state)
       = Inl (Thrown ''Error: connect ECONNREFUSED'')"
proof -
  have h: "failing_backend (calls tracking_state) (''sessions.terminate'', [JStr ''s1''])
       = Raises (Thrown ''Error: connect ECONNREFUSED'')"
    by (simp add: failing_backend_def)
  have t: "registry_get (JStr ''s1'') (sessionRegistry tracking_state) = Some sample_metadata"
    by (simp add: registry_get_def tracking_state_def)
  from terminateSession_releases
         [of "JObj [(''sessionId'', JStr ''s1'')]" failing_backend tracking_state] h t
  show ?thesis by simp
qed

section \<open>Properties of the tool registry\<close>

lemma content_text_result: "content (text_result t e) \<noteq> []"
  by (simp add: text_result_def)

lemma content_reportAirtopErrors: "reportAirtopErrors errors = Inr r \<Longrightarrow> content r \<noteq> []"
  by (auto simp: reportAirtopErrors_def content_text_result split: sum.splits)

lemma content_json_result: "json_result v = Inr r \<Longrightarrow> content r \<noteq> []"
  by (auto simp: json_result_def content_text_result split: sum.splits)



lemma content_respond_errors_optional: "respond_errors_optional v = Inr r \<Longrightarrow> content r \<noteq> []"
  by (auto simp: respond_errors_optional_def split: sum.splits if_splits
      dest: content_reportAirtopErrors content_json_result)

lemma content_backend_then:
  assumes "backend_then be m args k st = (Inr r, st')"
    and "\<And>v r. k v = Inr r \<Longrightarrow> content r \<noteq> []"
  shows "content r \<noteq> []"
  using assms
  by (auto simp: backend_then_def call_backend_def split: outcome.splits)

lemma content_catching:
  assumes "catching prefix p = (Inr r, st')"
    and "\<And>r st. p = (Inr r, st) \<Longrightarrow> content r \<noteq> []"
  shows "content r \<noteq> []"
  using assms
  by (cases p; cases "fst p") (auto simp: catching_def content_text_result)

text \<open>A handler whose body is inside \<^verbatim>\<open>try\<close> returns a result whatever the backend does.\<close>

lemma catching_returns: "\<exists>r st'. catching prefix p = (Inr r, st')"
  by (cases p; cases "fst p") (auto simp: catching_def)




lemma content_pageQuery: "pageQuery be a st = (Inr r, st') \<Longrightarrow> content r \<noteq> []"
  unfolding pageQuery_def
  by (erule content_catching, erule content_backend_then) (rule content_respond_errors_optional)




lemma content_click: "click be a st = (Inr r, st') \<Longrightarrow> content r \<noteq> []"
  unfolding click_def Let_def
  by (erule content_catching, erule content_backend_then) (rule content_respond_errors_optional)



lemma content_scrape: "scrape be a st = (Inr r, st') \<Longrightarrow> content r \<noteq> []"
  unfolding scrape_def
  by (erule content_catching, erule content_backend_then) (rule content_respond_errors_optional)

lemma content_fileInput: "fileInput be a st = (Inr r, st') \<Longrightarrow> content r \<noteq> []"
  unfolding fileInput_def
  by (erule content_catching, erule content_backend_then)
     (auto split: sum.splits dest: content_json_result)





lemma find_by_name:
  "distinct (map f xs) \<Longrightarrow> x \<in> set xs \<Longrightarrow> find (\<lambda>y. f y = f x) xs = Some x"
  by (induction xs) (auto simp: image_iff)


lemma pageQuery_catches:
  "fst (pageQuery failing_backend
          (JObj [(''sessionId'', JStr ''s''), (''windowId'', JStr ''w''), (''prompt'', JStr ''p'')])
          idle_state)
     = Inr (text_result
              (Some ''Internal error during pageQuery: Error: connect ECONNREFUSED'') True)"
  by (simp add: pageQuery_def catching_def backend_then_def call_backend_def failing_backend_def)

text \<open>
  The four handlers whose body is inside \<^verbatim>\<open>try\<close> return a result with a content
  block whatever the backend does, without help from the registry.
\<close>

lemma try_handlers_return:
  assumes "h \<in> {pageQuery, click, scrape, fileInput}"
  shows "\<exists>r st'. h be a st = (Inr r, st') \<and> content r \<noteq> []"
proof -
  from assms consider "h = pageQuery" | "h = click" | "h = scrape" | "h = fileInput"
    by auto
  then have "\<exists>r st'. h be a st = (Inr r, st')"
    by cases
      (simp_all add: pageQuery_def click_def scrape_def fileInput_def Let_def catching_returns)
  then obtain r st' where "h be a st = (Inr r, st')" by blast
  moreover from this assms have "content r \<noteq> []"
    by (auto dest: content_pageQuery content_click content_scrape content_fileInput)
  ultimately show ?thesis by blast
qed



text \<open>
  C4. For a tool that declares a schema and a raw input the schema rejects, invoking the
  tool returns an error result carrying a validation message and leaves the state as it
  was: no backend call is logged and the registry is untouched, whatever the handler is.
\<close>

theorem invalid_input_rejected:
  assumes "distinct (map tool_name registry)" and "t \<in> set registry"
    and "inputSchema t = Some s" and "zparse s rawInput = None"
  shows "invoke registry be (tool_name t) rawInput st =
           (Inr (text_result (Some (''Invalid arguments for tool '' @ tool_name t)) True), st)"
  using find_by_name [OF assms(1,2)] assms(3,4)
  by (simp add: invoke_def parsed_input_def)

text \<open>\<open>createWindow\<close> without its \<^verbatim>\<open>url\<close>.\<close>

theorem invalid_input_rejected_witness:
  "distinct (map tool_name tools)
   \<and> tools ! 2 \<in> set tools
   \<and> inputSchema (tools ! 2) = Some (ZObject [(''sessionId'', ZString), (''url'', ZString)])
   \<and> zparse (ZObject [(''sessionId'', ZString), (''url'', ZString)])
        (JObj [(''sessionId'', JStr ''s'')]) = None
   \<and> invoke tools failing_backend ''createWindow'' (JObj [(''sessionId'', JStr ''s'')]) idle_state =
       (Inr (text_result (Some ''Invalid arguments for tool createWindow'') True), idle_state)"
proof -
  let ?s = "ZObject [(''sessionId'', ZString), (''url'', ZString)]"
  let ?raw = "JObj [(''sessionId'', JStr ''s'')]"
  have d: "distinct (map tool_name tools)" by (simp add: tools_def)
  have m: "tools ! 2 \<in> set tools" by (simp add: tools_def)
  have s: "inputSchema (tools ! 2) = Some ?s" by (simp add: tools_def)
  have z: "zparse ?s ?raw = None" by simp
  have n: "tool_name (tools ! 2) = ''createWindow''" by (simp add: tools_def)
  from invalid_input_rejected [OF d m s z, of failing_backend idle_state] d m s z
  show ?thesis unfolding n by simp
qed

section \<open>Properties of the gateway\<close>

lemma run_events_dom:
  assumes "possible_run os cs es" "dom ts = set os - set cs" "set cs \<subseteq> set os"
  shows "dom (run_events es ts) = (set os \<union> set (opened es)) - (set cs \<union> set (closed es))"
  using assms
proof (induction os cs es arbitrary: ts rule: possible_run.induct)
  case (1 os cs)
  then show ?case by simp
next
  case (2 os cs c es)
  from "2.prems" have c: "c \<notin> set os" and run: "possible_run (c # os) cs es" by simp_all
  from c "2.prems"(3) have "c \<notin> set cs" by auto
  with "2.prems"(2) have "dom (get_sse c ts) = set (c # os) - set cs"
    by (auto simp: get_sse_def)
  moreover from "2.prems"(3) have "set cs \<subseteq> set (c # os)" by auto
  ultimately have "dom (run_events es (get_sse c ts)) =
      (set (c # os) \<union> set (opened es)) - (set cs \<union> set (closed es))"
    using "2.IH" run by blast
  then show ?case by simp
next
  case (3 os cs c es)
  from "3.prems" have c: "c \<in> set os" and run: "possible_run os (c # cs) es" by simp_all
  from "3.prems"(2) have "dom (on_close c ts) = set os - set (c # cs)"
    by (auto simp: on_close_def)
  moreover from c "3.prems"(3) have "set (c # cs) \<subseteq> set os" by auto
  ultimately have "dom (run_events es (on_close c ts)) =
      (set os \<union> set (opened es)) - (set (c # cs) \<union> set (closed es))"
    using "3.IH" run by blast
  then show ?case by simp
qed

lemma possible_run_distinct:
  assumes "possible_run os cs es" "distinct os" "distinct cs" "set cs \<subseteq> set os"
  shows "distinct (os @ opened es) \<and> distinct (cs @ closed es) \<and>
         set (cs @ closed es) \<subseteq> set (os @ opened es) \<and>
         set (opened es) \<inter> set object_prototype_keys = {}"
  using assms
proof (induction os cs es rule: possible_run.induct)
  case (1 os cs)
  then show ?case by simp
next
  case (2 os cs c es)
  from "2.prems" have c: "c \<notin> set object_prototype_keys" "c \<notin> set os"
    and run: "possible_run (c # os) cs es" by simp_all
  from c "2.prems" have "distinct (c # os)" "set cs \<subseteq> set (c # os)" by auto
  from "2.IH" [OF run this(1) "2.prems"(3) this(2)] c show ?case by auto
next
  case (3 os cs c es)
  from "3.prems" have c: "c \<in> set os" "c \<notin> set cs"
    and run: "possible_run os (c # cs) es" by simp_all
  from c "3.prems" have "distinct (c # cs)" "set (c # cs) \<subseteq> set os" by auto
  from "3.IH" [OF run "3.prems"(2) this] show ?case by auto
qed

lemma get_sse_inserts_one:
  assumes "finite (dom ts)" "ts c = None"
  shows "dom (get_sse c ts) = insert c (dom ts) \<and> card (dom (get_sse c ts)) = card (dom ts) + 1"
proof -
  have d: "dom (get_sse c ts) = insert c (dom ts)"
    by (simp add: get_sse_def)
  from assms(2) have "c \<notin> dom ts" by (simp add: dom_def)
  with assms(1) d show ?thesis by simp
qed

lemma on_close_removes_one:
  "dom (on_close c ts) = dom ts - {c} \<and> (\<forall>k. k \<noteq> c \<longrightarrow> on_close c ts k = ts k)"
  by (auto simp: on_close_def)

lemma post_messages_live: "ts c = Some t \<Longrightarrow> post_messages (JStr c) ts = HandlePostMessage t"
  by (simp add: post_messages_def obj_read_def)

lemma post_messages_unknown:
  "to_string q = Inr k \<Longrightarrow> ts k = None \<Longrightarrow> k \<notin> set object_prototype_keys \<Longrightarrow>
   post_messages q ts = Status 400 ''No transport found for sessionId''"
  by (simp add: post_messages_def obj_read_def)

text \<open>
  C5, at the input where the code departs from it. With no connection open, a
  \<^verbatim>\<open>POST /messages?sessionId=constructor\<close> finds \<^verbatim>\<open>Object.prototype.constructor\<close>
  under that key, takes it for a transport, and the call of its missing
  \<^verbatim>\<open>handlePostMessage\<close> raises: the request is not answered with status 400.
\<close>

theorem post_messages_prototype_key:
  "post_messages (JStr ''constructor'') Map.empty
     = Rejected (TypeError ''transport.handlePostMessage is not a function'')"
  by (simp add: post_messages_def obj_read_def object_prototype_keys_def)

text \<open>
  C6. In every possible run from the empty registry, with N streams opened and M of them
  closed, the registry holds exactly N - M entries, M is at most N, the entries are those
  of the streams opened and not closed, no closed connection has an entry, and a message
  posted for a closed connection's identifier is answered with status 400.
\<close>

theorem connection_registry_count:
  assumes "possible_run [] [] es"
  shows "card (dom (run_events es Map.empty)) = length (opened es) - length (closed es)
       \<and> length (closed es) \<le> length (opened es)
       \<and> dom (run_events es Map.empty) = set (opened es) - set (closed es)
       \<and> (\<forall>c \<in> set (closed es).
             run_events es Map.empty c = None
           \<and> post_messages (JStr c) (run_events es Map.empty)
               = Status 400 ''No transport found for sessionId'')"
proof -
  let ?ts = "run_events es Map.empty"
  have dom: "dom ?ts = set (opened es) - set (closed es)"
    using run_events_dom [OF assms, of Map.empty] by simp
  have d: "distinct (opened es)" "distinct (closed es)" "set (closed es) \<subseteq> set (opened es)"
       "set (opened es) \<inter> set object_prototype_keys = {}"
    using possible_run_distinct [OF assms] by simp_all
  have "card (dom ?ts) = card (set (opened es)) - card (set (closed es))"
    unfolding dom using d(3) by (simp add: card_Diff_subset)
  then have n: "card (dom ?ts) = length (opened es) - length (closed es)"
    using d(1,2) by (simp add: distinct_card)
  have m: "length (closed es) \<le> length (opened es)"
    using card_mono [OF _ d(3)] d(1,2) by (simp add: distinct_card)
  have gone: "?ts c = None" if "c \<in> set (closed es)" for c
    using dom that by (auto simp: dom_def)
  have "post_messages (JStr c) ?ts = Status 400 ''No transport found for sessionId''"
    if "c \<in> set (closed es)" for c
  proof -
    from that d(3,4) have "c \<notin> set object_prototype_keys" by auto
    with gone [OF that] show ?thesis by (simp add: post_messages_def obj_read_def)
  qed
  with n m dom gone show ?thesis by blast
qed

text \<open>Three streams opened and the first closed: two entries are left.\<close>

theorem connection_registry_count_witness:
  "possible_run [] [] sample_run
   \<and> card (dom (run_events sample_run Map.empty)) = 2
   \<and> run_events sample_run Map.empty ''c1'' = None
   \<and> post_messages (JStr ''c1'') (run_events sample_run Map.empty)
       = Status 400 ''No transport found for sessionId''"
proof -
  have h: "possible_run [] [] sample_run"
    by (simp add: sample_run_def object_prototype_keys_def)
  have o: "opened sample_run = [''c1'', ''c2'', ''c3'']" "closed sample_run = [''c1'']"
    by (simp_all add: sample_run_def)
  from connection_registry_count [OF h] h show ?thesis unfolding o by simp
qed

section \<open>Properties of start-up\<close>

lemma help_and_version_exit_0:
  assumes "''--help'' \<in> set argv \<or> ''-h'' \<in> set argv
           \<or> ''--version'' \<in> set argv \<or> ''-v'' \<in> set argv"
  shows "main argv env = Exit 0 \<and> run_process argv env port_free = Exited 0"
  using assms by (auto simp: run_process_def main_def)

lemma missing_credential_rejects:
  assumes "\<not> (''--help'' \<in> set argv \<or> ''-h'' \<in> set argv
              \<or> ''--version'' \<in> set argv \<or> ''-v'' \<in> set argv)"
    and "env ''AIRTOP_API_KEY'' = None \<or> env ''AIRTOP_API_KEY'' = Some []"
  shows "main argv env = Rejects (Thrown ''Error: AIRTOP_API_KEY environment variable is required'')
         \<and> run_process argv env port_free = Exited 0"
  using assms by (auto simp: run_process_def main_def)

text \<open>The one path of start-up that ends with a non-zero code: the port cannot be bound.\<close>

lemma failed_listen_exits_1:
  "main argv env = Listens p \<Longrightarrow> run_process argv env False = Exited 1"
  by (simp add: run_process_def)

lemma nonzero_exit_is_failed_listen:
  "run_process argv env port_free = Exited code \<Longrightarrow> code \<noteq> 0 \<Longrightarrow>
   \<not> port_free \<and> main argv env = Listens PORT \<and> code = 1"
  by (auto simp: run_process_def main_def split: if_splits)

text \<open>
  C8, at the input where the code departs from it. Started without flags and without
  the credential \<^verbatim>\<open>AIRTOP_API_KEY\<close>, \<open>main\<close> rejects with the error naming the
  variable; the rejection is only printed, the process ends with code 0, not a non-zero
  one, and the launcher passes that 0 on.
\<close>

theorem exit_code_without_credential:
  "main [''node'', ''server.js''] Map.empty
     = Rejects (Thrown ''Error: AIRTOP_API_KEY environment variable is required'')
   \<and> run_process [''node'', ''server.js''] Map.empty True = Exited 0
   \<and> launcher (ChildExit (Some 0)) = 0"
  by (simp add: run_process_def main_def)

lemma listens_on_PORT: "main argv env = Listens p \<Longrightarrow> p = 3456"
  by (auto simp: main_def PORT_def split: if_splits)

text \<open>
  C9, at the input where the code departs from it. Started with \<^verbatim>\<open>--listen\<close>, the
  credential set and \<^verbatim>\<open>PORT=8080\<close> in the environment, the server listens on 3456:
  the environment's port is never read.
\<close>

theorem port_not_overridable:
  "main [''node'', ''server.js'', ''--listen'']
        [''AIRTOP_API_KEY'' \<mapsto> ''key'', ''PORT'' \<mapsto> ''8080''] = Listens 3456"
  by (simp add: main_def PORT_def)

end
